theory Spec2Isabelle
  imports Main "HOL-Library.Word"
begin

section \<open>Go strings and the string functions of the standard library\<close>

text \<open>
  A Go \<^verbatim>\<open>string\<close> is a sequence of bytes and \<^verbatim>\<open>len\<close> counts bytes, so a Go string
  is a \<^typ>\<open>string\<close> here (a list of 8-bit characters) and \<^verbatim>\<open>s[i]\<close> is \<open>s ! i\<close>.
  \<open>byte c\<close> is the numeric value of a byte, used wherever the source compares bytes.
\<close>

definition byte :: "char \<Rightarrow> nat" where
  "byte c = of_char c"

text \<open>\<^verbatim>\<open>strings.HasPrefix\<close>: \<^verbatim>\<open>len(s) >= len(prefix) && s[:len(prefix)] == prefix\<close>.\<close>

definition HasPrefix :: "string \<Rightarrow> string \<Rightarrow> bool" where
  "HasPrefix s p = (length p \<le> length s \<and> take (length p) s = p)"

text \<open>\<^verbatim>\<open>strings.HasSuffix\<close>: \<^verbatim>\<open>len(s) >= len(suffix) && s[len(s)-len(suffix):] == suffix\<close>.\<close>

definition HasSuffix :: "string \<Rightarrow> string \<Rightarrow> bool" where
  "HasSuffix s p = (length p \<le> length s \<and> drop (length s - length p) s = p)"

text \<open>\<^verbatim>\<open>strings.TrimPrefix\<close>: the string without the prefix when it has it, else the string.\<close>

definition TrimPrefix :: "string \<Rightarrow> string \<Rightarrow> string" where
  "TrimPrefix s p = (if HasPrefix s p then drop (length p) s else s)"

text \<open>
  \<^verbatim>\<open>strings.TrimSpace\<close> removes leading and trailing white space as Unicode defines it
  (\<^verbatim>\<open>unicode.IsSpace\<close>): the six ASCII characters tab, line feed, vertical tab, form feed,
  carriage return and space, and the runes U+0085, U+00A0, U+1680, U+2000 to U+200A,
  U+2028, U+2029, U+202F, U+205F and U+3000. The string is a byte sequence, so the runes
  appear in it as their UTF-8 encodings, listed here. The library decodes one rune at the
  front (at the back) and stops at the first that is not white space; a rune is white
  space exactly when its encoding is one of these, and a byte that starts no valid
  encoding decodes to U+FFFD, which is not white space.
\<close>

definition spaceRunes :: "string list" where
  "spaceRunes =
    [[CHR 0x09], [CHR 0x0A], [CHR 0x0B], [CHR 0x0C], [CHR 0x0D], [CHR 0x20],
     [CHR 0xC2, CHR 0x85], [CHR 0xC2, CHR 0xA0],
     [CHR 0xE1, CHR 0x9A, CHR 0x80],
     [CHR 0xE2, CHR 0x80, CHR 0x80], [CHR 0xE2, CHR 0x80, CHR 0x81],
     [CHR 0xE2, CHR 0x80, CHR 0x82], [CHR 0xE2, CHR 0x80, CHR 0x83],
     [CHR 0xE2, CHR 0x80, CHR 0x84], [CHR 0xE2, CHR 0x80, CHR 0x85],
     [CHR 0xE2, CHR 0x80, CHR 0x86], [CHR 0xE2, CHR 0x80, CHR 0x87],
     [CHR 0xE2, CHR 0x80, CHR 0x88], [CHR 0xE2, CHR 0x80, CHR 0x89],
     [CHR 0xE2, CHR 0x80, CHR 0x8A],
     [CHR 0xE2, CHR 0x80, CHR 0xA8], [CHR 0xE2, CHR 0x80, CHR 0xA9],
     [CHR 0xE2, CHR 0x80, CHR 0xAF],
     [CHR 0xE2, CHR 0x81, CHR 0x9F],
     [CHR 0xE3, CHR 0x80, CHR 0x80]]"

function TrimLeftSpace :: "string \<Rightarrow> string" where
  "TrimLeftSpace s =
     (case find (HasPrefix s) spaceRunes of
        None \<Rightarrow> s
      | Some e \<Rightarrow> TrimLeftSpace (drop (length e) s))"
  by pat_completeness auto
termination
proof (relation "measure length")
  show "wf (measure length)" by simp
next
  fix s e
  assume "find (HasPrefix s) spaceRunes = Some e"
  then have "e \<in> set spaceRunes" and "HasPrefix s e"
    by (auto simp: find_Some_iff)
  then have "e \<noteq> []" and "length e \<le> length s"
    by (auto simp: spaceRunes_def HasPrefix_def)
  then show "(drop (length e) s, s) \<in> measure length"
    by (cases e) auto
qed

function TrimRightSpace :: "string \<Rightarrow> string" where
  "TrimRightSpace s =
     (case find (HasSuffix s) spaceRunes of
        None \<Rightarrow> s
      | Some e \<Rightarrow> TrimRightSpace (take (length s - length e) s))"
  by pat_completeness auto
termination
proof (relation "measure length")
  show "wf (measure length)" by simp
next
  fix s e
  assume "find (HasSuffix s) spaceRunes = Some e"
  then have "e \<in> set spaceRunes" and "HasSuffix s e"
    by (auto simp: find_Some_iff)
  then have "e \<noteq> []" and "length e \<le> length s"
    by (auto simp: spaceRunes_def HasSuffix_def)
  then show "(take (length s - length e) s, s) \<in> measure length"
    by (cases e) auto
qed

declare TrimLeftSpace.simps [simp del] TrimRightSpace.simps [simp del]

definition TrimSpace :: "string \<Rightarrow> string" where
  "TrimSpace s = TrimRightSpace (TrimLeftSpace s)"

text \<open>
  \<^verbatim>\<open>strings.ToLower\<close>. On a string of ASCII bytes the library adds \<^verbatim>\<open>'a' - 'A'\<close> to every
  byte in \<^verbatim>\<open>'A'..'Z'\<close> and leaves the others, which is the definition below. On a string
  with a byte above 0x7F it maps every rune through the Unicode case tables; those tables
  are not part of this development and the definition leaves such bytes as they are.
  The two callers, \<open>DetectHashAlgo\<close> and \<open>Verify\<close> of the hasher, only compare the
  result with strings over \<^verbatim>\<open>0-9a-f\<close>, and the Unicode mapping sends no rune above
  0x7F to one of these sixteen characters (the only such runes with an ASCII lower case
  are U+212A, to \<^verbatim>\<open>k\<close>, and U+0130, to \<^verbatim>\<open>i\<close>), so both comparisons come out the same.
\<close>

definition toLowerByte :: "char \<Rightarrow> char" where
  "toLowerByte c =
     (if byte (CHR ''A'') \<le> byte c \<and> byte c \<le> byte (CHR ''Z'')
      then char_of (byte c + (byte (CHR ''a'') - byte (CHR ''A'')))
      else c)"

definition ToLower :: "string \<Rightarrow> string" where
  "ToLower s = map toLowerByte s"

section \<open>Errors\<close>

text \<open>
  Every error value the code creates, one constructor per message.
  \<open>ErrUnsupportedAlgorithm\<close> is the sentinel \<^verbatim>\<open>ports.ErrUnsupportedAlgorithm\<close>; the
  constructors with an argument wrap or quote it as the \<^verbatim>\<open>fmt.Errorf\<close> call does.
\<close>

datatype io_error = EOF | ErrUnexpectedEOF | ErrRead string

type_synonym HashAlgo = string

datatype error =
    ErrUnsupportedAlgorithm
  | ErrRounds
  | ErrSaltLength
  | ErrCannotCreateCrypter HashAlgo
  | ErrCannotCreateHash HashAlgo
  | ErrUnsupportedAlgorithmFor HashAlgo
  | ErrUnsupportedHashAlgorithm
  | ErrRandom io_error
  | ErrCrypt string
  | ErrMissingAuthorizationHeader
  | ErrSchemeNotSupported
  | ErrMissingAuthHeaders
  | ErrUnknownApiKey
  | ErrInvalidAuthScheme
  | ErrBadTimestamp
  | ErrTimestampOutsideWindow
  | ErrBodyRead io_error
  | ErrBodyHashMismatch
  | ErrBadSignatureEncoding
  | ErrBadSignature
  | ErrNotVerified

section \<open>Hash algorithms and their detection (package ports)\<close>

definition AlgoCryptMD5 :: HashAlgo where "AlgoCryptMD5 = ''crypt-md5''"
definition AlgoCryptSHA256 :: HashAlgo where "AlgoCryptSHA256 = ''crypt-sha256''"
definition AlgoCryptSHA512 :: HashAlgo where "AlgoCryptSHA512 = ''crypt-sha512''"
definition AlgoRawMD5 :: HashAlgo where "AlgoRawMD5 = ''raw-md5''"
definition AlgoRawSHA1 :: HashAlgo where "AlgoRawSHA1 = ''raw-sha1''"
definition AlgoRawSHA256 :: HashAlgo where "AlgoRawSHA256 = ''raw-sha256''"
definition AlgoRawSHA512 :: HashAlgo where "AlgoRawSHA512 = ''raw-sha512''"

definition IsCrypt :: "HashAlgo \<Rightarrow> bool" where
  "IsCrypt a = HasPrefix a ''crypt-''"

text \<open>
  \<open>isHexLen\<close>: the length test, then the loop over \<open>i = 0 .. n - 1\<close> that returns false at
  the first byte outside \<^verbatim>\<open>0-9\<close> and \<^verbatim>\<open>a-f\<close>.
\<close>

function isHexLoop :: "string \<Rightarrow> nat \<Rightarrow> nat \<Rightarrow> bool" where
  "isHexLoop s n i =
     (if i < n then
        (let c = s ! i in
         if byte (CHR ''0'') \<le> byte c \<and> byte c \<le> byte (CHR ''9'') then isHexLoop s n (i + 1)
         else if byte (CHR ''a'') \<le> byte c \<and> byte c \<le> byte (CHR ''f'') then isHexLoop s n (i + 1)
         else False)
      else True)"
  by pat_completeness auto
termination
  by (relation "measure (\<lambda>(s, n, i). n - i)") auto

declare isHexLoop.simps [simp del]

definition isHexLen :: "string \<Rightarrow> nat \<Rightarrow> bool" where
  "isHexLen s n = (if length s \<noteq> n then False else isHexLoop s n 0)"

definition DetectHashAlgo :: "string \<Rightarrow> HashAlgo \<times> error option" where
  "DetectHashAlgo hashed =
     (let s = TrimSpace hashed;
          ls = ToLower s
      in if HasPrefix s ''$6$'' then (AlgoCryptSHA512, None)
         else if HasPrefix s ''$5$'' then (AlgoCryptSHA256, None)
         else if HasPrefix s ''$1$'' then (AlgoCryptMD5, None)
         else if isHexLen ls 32 then (AlgoRawMD5, None)
         else if isHexLen ls 40 then (AlgoRawSHA1, None)
         else if isHexLen ls 64 then (AlgoRawSHA256, None)
         else if isHexLen ls 128 then (AlgoRawSHA512, None)
         else ('''', Some ErrUnsupportedAlgorithm))"

text \<open>
  The classification as the specification words it, on a string taken as it is: the three
  prefixes first, then the four lengths of strings over \<^verbatim>\<open>0-9a-fA-F\<close>, then the error.
\<close>

definition isHexChar :: "char \<Rightarrow> bool" where
  "isHexChar c = (byte (CHR ''0'') \<le> byte c \<and> byte c \<le> byte (CHR ''9'')
                  \<or> byte (CHR ''a'') \<le> byte c \<and> byte c \<le> byte (CHR ''f'')
                  \<or> byte (CHR ''A'') \<le> byte c \<and> byte c \<le> byte (CHR ''F''))"

definition classify_spec :: "string \<Rightarrow> HashAlgo \<times> error option" where
  "classify_spec s =
     (if HasPrefix s ''$6$'' then (AlgoCryptSHA512, None)
      else if HasPrefix s ''$5$'' then (AlgoCryptSHA256, None)
      else if HasPrefix s ''$1$'' then (AlgoCryptMD5, None)
      else if length s = 32 \<and> list_all isHexChar s then (AlgoRawMD5, None)
      else if length s = 40 \<and> list_all isHexChar s then (AlgoRawSHA1, None)
      else if length s = 64 \<and> list_all isHexChar s then (AlgoRawSHA256, None)
      else if length s = 128 \<and> list_all isHexChar s then (AlgoRawSHA512, None)
      else ('''', Some ErrUnsupportedAlgorithm))"

text \<open>The bytes the loop of \<open>isHexLen\<close> lets pass.\<close>

definition isLowerHex :: "char \<Rightarrow> bool" where
  "isLowerHex c = (byte (CHR ''0'') \<le> byte c \<and> byte c \<le> byte (CHR ''9'')
                   \<or> byte (CHR ''a'') \<le> byte c \<and> byte c \<le> byte (CHR ''f''))"

section \<open>Hex encoding (package encoding/hex)\<close>

text \<open>
  \<^verbatim>\<open>hex.EncodeToString\<close> writes, for every byte \<open>v\<close>, \<^verbatim>\<open>hextable[v>>4]\<close> and
  \<^verbatim>\<open>hextable[v&0x0f]\<close>.
\<close>

definition hextable :: string where
  "hextable = ''0123456789abcdef''"

definition EncodeToString :: "string \<Rightarrow> string" where
  "EncodeToString src =
     concat (map (\<lambda>v. [hextable ! (byte v div 16), hextable ! (byte v mod 16)]) src)"

text \<open>
  \<^verbatim>\<open>hex.DecodeString\<close> reads two characters for each byte, accepts both cases of
  \<^verbatim>\<open>a-f\<close>, and fails on any other character and on an odd length. The callers only test
  whether it failed, so the failure is \<open>None\<close>.
\<close>

definition fromHexChar :: "char \<Rightarrow> nat option" where
  "fromHexChar c =
     (if byte (CHR ''0'') \<le> byte c \<and> byte c \<le> byte (CHR ''9'') then Some (byte c - byte (CHR ''0''))
      else if byte (CHR ''a'') \<le> byte c \<and> byte c \<le> byte (CHR ''f'')
        then Some (byte c - byte (CHR ''a'') + 10)
      else if byte (CHR ''A'') \<le> byte c \<and> byte c \<le> byte (CHR ''F'')
        then Some (byte c - byte (CHR ''A'') + 10)
      else None)"

fun DecodeString :: "string \<Rightarrow> string option" where
  "DecodeString [] = Some []"
| "DecodeString [p] = None"
| "DecodeString (p # q # rest) =
     (case fromHexChar p of
        None \<Rightarrow> None
      | Some a \<Rightarrow>
          (case fromHexChar q of
             None \<Rightarrow> None
           | Some b \<Rightarrow>
               (case DecodeString rest of
                  None \<Rightarrow> None
                | Some bs \<Rightarrow> Some (char_of (a * 16 + b) # bs))))"

section \<open>What the code takes from outside the repository\<close>

text \<open>
  The digests and the MAC of the Go standard library, \<^verbatim>\<open>time.Parse\<close> with the layout
  \<^verbatim>\<open>time.RFC3339\<close>, and the three crypters of \<^verbatim>\<open>github.com/GehirnInc/crypt\<close> are not code
  of the repository. They are parameters: every function that calls one takes the record
  \<open>P\<close> of them, and every theorem holds for all of them, with the properties it needs of
  them among its hypotheses.

  A digest maps the bytes written to it to the bytes of \<^verbatim>\<open>Sum\<close>. A crypter has the two
  methods the code calls: \<^verbatim>\<open>Generate(key, salt)\<close>, which returns the hash or an error, and
  \<^verbatim>\<open>Verify(hashedKey, key)\<close>, which returns \<^verbatim>\<open>nil\<close> (\<open>None\<close>) when the key matches.
  A parsed time is the instant in nanoseconds.
\<close>

record crypter =
  crypter_Generate :: "string \<Rightarrow> string \<Rightarrow> error + string"
  crypter_Verify :: "string \<Rightarrow> string \<Rightarrow> error option"

record primitives =
  md5_Sum :: "string \<Rightarrow> string"
  sha1_Sum :: "string \<Rightarrow> string"
  sha256_Sum256 :: "string \<Rightarrow> string"
  sha512_Sum512 :: "string \<Rightarrow> string"
  hmac_sha256 :: "string \<Rightarrow> string \<Rightarrow> string"
  time_Parse_RFC3339 :: "string \<Rightarrow> int option"
  md5_crypt_New :: crypter
  sha256_crypt_New :: crypter
  sha512_crypt_New :: crypter

text \<open>
  An \<^verbatim>\<open>io.Reader\<close>: the bytes it still delivers, and the error it returns once they are
  used up (\<^verbatim>\<open>io.EOF\<close> for a reader that just ends). \<^verbatim>\<open>io.ReadFull\<close> fills a buffer of
  \<open>n\<close> bytes or fails: with the reader's error when it got nothing or the error is not
  \<^verbatim>\<open>io.EOF\<close>, with \<^verbatim>\<open>io.ErrUnexpectedEOF\<close> when the reader ended after some bytes.
\<close>

datatype reader = Reader (pending: string) (failure: io_error)

definition io_ReadFull :: "reader \<Rightarrow> nat \<Rightarrow> (io_error + string) \<times> reader" where
  "io_ReadFull r n =
     (if n \<le> length (pending r)
      then (Inr (take n (pending r)), Reader (drop n (pending r)) (failure r))
      else (Inl (if pending r \<noteq> [] \<and> failure r = EOF then ErrUnexpectedEOF else failure r),
            Reader [] (failure r)))"

text \<open>
  \<^verbatim>\<open>subtle.ConstantTimeCompare\<close> returns 1 when the two slices have the same length and
  the same bytes, else 0.
\<close>

definition ConstantTimeCompare :: "string \<Rightarrow> string \<Rightarrow> int" where
  "ConstantTimeCompare x y = (if length x \<noteq> length y then 0 else if x = y then 1 else 0)"

text \<open>\<^verbatim>\<open>%d\<close> of \<^verbatim>\<open>fmt.Sprintf\<close>: the decimal digits, after a minus sign when negative.\<close>

fun utoa :: "nat \<Rightarrow> string" where
  "utoa n = (if n < 10 then [hextable ! n] else utoa (n div 10) @ [hextable ! (n mod 10)])"

declare utoa.simps [simp del]

definition itoa :: "int \<Rightarrow> string" where
  "itoa i = (if i < 0 then CHR ''-'' # utoa (nat (- i)) else utoa (nat i))"

section \<open>The hasher (package security, \<^verbatim>\<open>DefaultHasher\<close>)\<close>

text \<open>
  The fields of the struct. \<open>rr\<close> is the state of the reader that salts are drawn from,
  so \<open>Hash\<close> returns the hasher with the reader as it left it.
\<close>

record DefaultHasher =
  rr :: reader
  defaultAlg :: HashAlgo
  defaultAlgId :: int
  defaultCrypter :: crypter
  defaultRounds :: int
  defaultSaltLen :: int

definition validateParams :: "int \<Rightarrow> int \<Rightarrow> error option" where
  "validateParams rounds saltLen =
     (if rounds < 1000 \<or> rounds > 1000000 then Some ErrRounds
      else if saltLen \<le> 0 \<or> saltLen > 16 then Some ErrSaltLength
      else None)"

definition cryptAlphabet :: string where
  "cryptAlphabet = ''./0123456789ABCDEFGHIJKLMNOPQRSTUVWXYZabcdefghijklmnopqrstuvwxyz''"

text \<open>
  \<open>randomSalt\<close>: \<open>n\<close> bytes from the reader, each mapped into the alphabet. Its only
  caller has checked \<open>1 \<le> n \<le> 16\<close>, so the length of the buffer is \<open>nat n\<close>.
\<close>

definition randomSalt :: "int \<Rightarrow> reader \<Rightarrow> (error + string) \<times> reader" where
  "randomSalt n rng =
     (case io_ReadFull rng (nat n) of
        (Inl err, rng') \<Rightarrow> (Inl (ErrRandom err), rng')
      | (Inr buf, rng') \<Rightarrow>
          (Inr (map (\<lambda>b. cryptAlphabet ! (byte b mod length cryptAlphabet)) buf), rng'))"

definition prepareSaltSpec :: "reader \<Rightarrow> int \<Rightarrow> int \<Rightarrow> int \<Rightarrow> (error + string) \<times> reader" where
  "prepareSaltSpec r algId rounds saltLen =
     (case validateParams rounds saltLen of
        Some err \<Rightarrow> (Inl err, r)
      | None \<Rightarrow>
          (case randomSalt saltLen r of
             (Inl err, r') \<Rightarrow> (Inl err, r')
           | (Inr salt, r') \<Rightarrow>
               (Inr (''$'' @ itoa algId @ ''$rounds='' @ itoa rounds @ ''$'' @ salt), r')))"

text \<open>
  \<open>resolveCrypter\<close> returns the triple of the source: the id, the crypter (\<open>None\<close> is
  \<^verbatim>\<open>nil\<close>) and the error.
\<close>

definition resolveCrypter :: "primitives \<Rightarrow> HashAlgo \<Rightarrow> int \<times> crypter option \<times> error option" where
  "resolveCrypter P alg =
     (if alg = AlgoCryptMD5 then (1, Some (md5_crypt_New P), None)
      else if alg = AlgoCryptSHA256 then (5, Some (sha256_crypt_New P), None)
      else if alg = AlgoCryptSHA512 then (6, Some (sha512_crypt_New P), None)
      else (0, None, Some (ErrCannotCreateCrypter alg)))"

text \<open>
  \<open>resolveHash\<close> returns either a hash or an error, never both and never neither, so
  its pair is a sum.
\<close>

definition resolveHash :: "primitives \<Rightarrow> HashAlgo \<Rightarrow> error + (string \<Rightarrow> string)" where
  "resolveHash P alg =
     (if alg = AlgoRawMD5 then Inr (md5_Sum P)
      else if alg = AlgoRawSHA1 then Inr (sha1_Sum P)
      else if alg = AlgoRawSHA256 then Inr (sha256_Sum256 P)
      else if alg = AlgoRawSHA512 then Inr (sha512_Sum512 P)
      else Inl (ErrCannotCreateHash alg))"

text \<open>
  \<open>Hash\<close>. \<open>rounds\<close> and \<open>saltLen\<close> are pointers, \<open>None\<close> for \<^verbatim>\<open>nil\<close>. The result is
  the pair \<^verbatim>\<open>(hash, err)\<close> as a sum, and the hasher afterwards. In the raw branch
  \<^verbatim>\<open>h.Write\<close> cannot fail (the contract of \<^verbatim>\<open>hash.Hash\<close>), so the digest is the function
  of the bytes written.
\<close>

definition DefaultHasher_Hash ::
  "primitives \<Rightarrow> DefaultHasher \<Rightarrow> string \<Rightarrow> HashAlgo \<Rightarrow> int option \<Rightarrow> int option
     \<Rightarrow> (error + string) \<times> DefaultHasher" where
  "DefaultHasher_Hash P c plain alg rounds saltLen =
     (if IsCrypt alg then
        (case resolveCrypter P alg of
           (algId, crypter, Some err) \<Rightarrow> (Inl err, c)
         | (algId, crypter, None) \<Rightarrow>
             (let rounds' = (case rounds of None \<Rightarrow> defaultRounds c | Some n \<Rightarrow> n);
                  saltLen' = (case saltLen of None \<Rightarrow> defaultSaltLen c | Some n \<Rightarrow> n)
              in case prepareSaltSpec (rr c) algId rounds' saltLen' of
                   (Inl err, r') \<Rightarrow> (Inl err, c\<lparr>rr := r'\<rparr>)
                 | (Inr saltSpec, r') \<Rightarrow>
                     (case crypter of
                        Some cr \<Rightarrow> (crypter_Generate cr plain saltSpec, c\<lparr>rr := r'\<rparr>)
                      | None \<Rightarrow> (Inl (ErrUnsupportedAlgorithmFor alg), c\<lparr>rr := r'\<rparr>))))
      else
        (case resolveHash P alg of
           Inl err \<Rightarrow> (Inl err, c)
         | Inr h \<Rightarrow> (Inr (EncodeToString (h plain)), c)))"

definition DefaultHasher_DefaultHash ::
  "DefaultHasher \<Rightarrow> string \<Rightarrow> (error + string) \<times> DefaultHasher" where
  "DefaultHasher_DefaultHash c plain =
     (case prepareSaltSpec (rr c) (defaultAlgId c) (defaultRounds c) (defaultSaltLen c) of
        (Inl err, r') \<Rightarrow> (Inl err, c\<lparr>rr := r'\<rparr>)
      | (Inr saltSpec, r') \<Rightarrow> (crypter_Generate (defaultCrypter c) plain saltSpec, c\<lparr>rr := r'\<rparr>))"

definition stringsEq :: "string \<Rightarrow> string \<Rightarrow> bool" where
  "stringsEq a b = (if length a \<noteq> length b then False else ConstantTimeCompare a b = 1)"

text \<open>\<open>Verify\<close> returns the triple \<^verbatim>\<open>(verified, alg, err)\<close>; it does not use its receiver.\<close>

definition DefaultHasher_Verify ::
  "primitives \<Rightarrow> string \<Rightarrow> string \<Rightarrow> bool \<times> HashAlgo \<times> error option" where
  "DefaultHasher_Verify P hashed plain =
     (case DetectHashAlgo hashed of
        (alg, Some err) \<Rightarrow> (False, alg, Some err)
      | (alg, None) \<Rightarrow>
          if alg = AlgoCryptSHA512
            then (crypter_Verify (sha512_crypt_New P) hashed plain = None, alg, None)
          else if alg = AlgoCryptSHA256
            then (crypter_Verify (sha256_crypt_New P) hashed plain = None, alg, None)
          else if alg = AlgoCryptMD5
            then (crypter_Verify (md5_crypt_New P) hashed plain = None, alg, None)
          else if alg = AlgoRawMD5
            then (stringsEq (ToLower hashed) (EncodeToString (md5_Sum P plain)), alg, None)
          else if alg = AlgoRawSHA1
            then (stringsEq (ToLower hashed) (EncodeToString (sha1_Sum P plain)), alg, None)
          else if alg = AlgoRawSHA256
            then (stringsEq (ToLower hashed) (EncodeToString (sha256_Sum256 P plain)), alg, None)
          else if alg = AlgoRawSHA512
            then (stringsEq (ToLower hashed) (EncodeToString (sha512_Sum512 P plain)), alg, None)
          else (False, alg, Some ErrUnsupportedHashAlgorithm))"

section \<open>Requests and time\<close>

text \<open>
  The parts of \<^verbatim>\<open>*http.Request\<close> the authenticators read: the method, the value of
  \<^verbatim>\<open>r.URL.EscapedPath()\<close>, the raw query, the headers (canonical name to values) and
  the body. A body is absent (\<^verbatim>\<open>r.Body == nil\<close>), or a reader that delivers its bytes,
  or a reader whose read fails.
\<close>

datatype body = NoBody | BodyBytes string | BodyFailing io_error

record request =
  Method :: string
  EscapedPath :: string
  RawQuery :: string
  Header :: "string \<rightharpoonup> string list"
  Body :: body

text \<open>\<^verbatim>\<open>Header.Get\<close>: the first value of the header, the empty string when there is none.\<close>

definition Header_Get :: "(string \<rightharpoonup> string list) \<Rightarrow> string \<Rightarrow> string" where
  "Header_Get h key = (case h key of None \<Rightarrow> '''' | Some [] \<Rightarrow> '''' | Some (v # vs) \<Rightarrow> v)"

definition hdrAPIKey :: string where "hdrAPIKey = ''X-Api-Key''"
definition hdrAuthz :: string where "hdrAuthz = ''Authorization''"
definition hmacScheme :: string where "hmacScheme = ''HMAC''"
definition hmacHdrTimestamp :: string where "hmacHdrTimestamp = ''X-Timestamp''"
definition hmacHdrBodySHA256 :: string where "hmacHdrBodySHA256 = ''X-Content-Sha256''"
definition bearerScheme :: string where "bearerScheme = ''Bearer''"

text \<open>
  \<^verbatim>\<open>strings.EqualFold\<close> compares under Unicode case folding. Its second argument in the
  code is always a string over \<^verbatim>\<open>0-9a-f\<close>, whose characters fold only with their ASCII
  upper case, so there it is equality after lowering the ASCII letters.
\<close>

definition EqualFold :: "string \<Rightarrow> string \<Rightarrow> bool" where
  "EqualFold s t = (map toLowerByte s = map toLowerByte t)"

text \<open>\<^verbatim>\<open>strings.Join\<close>.\<close>

fun Join :: "string list \<Rightarrow> string \<Rightarrow> string" where
  "Join [] sep = ''''"
| "Join [x] sep = x"
| "Join (x # y # ys) sep = x @ sep @ Join (y # ys) sep"

text \<open>
  An instant is a number of nanoseconds, a \<^verbatim>\<open>time.Duration\<close> a signed 64-bit number of
  nanoseconds. \<^verbatim>\<open>Time.Sub\<close> returns the difference when a \<^verbatim>\<open>Duration\<close> holds it and the
  largest or smallest \<^verbatim>\<open>Duration\<close> otherwise.
\<close>

definition maxDuration :: int where "maxDuration = 2 ^ 63 - 1"
definition minDuration :: int where "minDuration = - (2 ^ 63)"

definition Time_Sub :: "int \<Rightarrow> int \<Rightarrow> int" where
  "Time_Sub t u =
     (let d = t - u
      in if d < minDuration then minDuration else if d > maxDuration then maxDuration else d)"

text \<open>\<^verbatim>\<open>hmac.Equal\<close>: whether the two MACs are the same bytes.\<close>

definition hmac_Equal :: "string \<Rightarrow> string \<Rightarrow> bool" where
  "hmac_Equal mac1 mac2 = (ConstantTimeCompare mac1 mac2 = 1)"

section \<open>The HMAC authenticator\<close>

record HMACAuthenticator =
  window :: "64 word"
  hmac_accessSecrets :: "string \<rightharpoonup> string"

text \<open>
  The window that \<open>NewHMACAuthenticator\<close> stores: the seconds of the configuration times
  \<^verbatim>\<open>time.Second\<close> in 64-bit arithmetic, and five minutes when that is not positive.
\<close>

definition NewHMACAuthenticator_window :: "64 word \<Rightarrow> 64 word" where
  "NewHMACAuthenticator_window windowSeconds =
     (let win = windowSeconds * 1000000000
      in if sint win \<le> 0 then 5 * (60 * 1000000000) else win)"

definition HMACAuthenticator_Supports :: "request \<Rightarrow> bool" where
  "HMACAuthenticator_Supports r = HasPrefix (Header_Get (Header r) hdrAuthz) (hmacScheme @ '' '')"

text \<open>
  \<open>bodyHashAndRestore\<close> reads the body to its end, puts a reader of the same bytes in its
  place and returns the hex SHA-256 of the bytes, or the error of the read.
\<close>

definition bodyHashAndRestore :: "primitives \<Rightarrow> request \<Rightarrow> (io_error + string) \<times> request" where
  "bodyHashAndRestore P r =
     (case Body r of
        NoBody \<Rightarrow> (Inr (EncodeToString (sha256_Sum256 P [])), r)
      | BodyFailing err \<Rightarrow> (Inl err, r)
      | BodyBytes b \<Rightarrow> (Inr (EncodeToString (sha256_Sum256 P b)), r\<lparr>Body := BodyBytes b\<rparr>))"

text \<open>
  \<open>Verify\<close>. \<open>now\<close> is the instant \<^verbatim>\<open>time.Now().UTC()\<close> returns. The result is the error
  (\<open>None\<close> for \<^verbatim>\<open>nil\<close>) and the request with its body as the call leaves it.
\<close>

definition HMACAuthenticator_Verify ::
  "primitives \<Rightarrow> HMACAuthenticator \<Rightarrow> int \<Rightarrow> request \<Rightarrow> error option \<times> request" where
  "HMACAuthenticator_Verify P s now r =
     (let apiKey = Header_Get (Header r) hdrAPIKey;
          authz = Header_Get (Header r) hdrAuthz;
          tsStr = Header_Get (Header r) hmacHdrTimestamp;
          bodySHA = Header_Get (Header r) hmacHdrBodySHA256
      in if apiKey = '''' \<or> authz = '''' \<or> tsStr = '''' \<or> bodySHA = ''''
         then (Some ErrMissingAuthHeaders, r)
         else case hmac_accessSecrets s apiKey of
           None \<Rightarrow> (Some ErrUnknownApiKey, r)
         | Some secret \<Rightarrow>
             if \<not> HasPrefix authz ''HMAC '' then (Some ErrInvalidAuthScheme, r)
             else
               let sigHex = TrimPrefix authz ''HMAC ''
               in case time_Parse_RFC3339 P tsStr of
                 None \<Rightarrow> (Some ErrBadTimestamp, r)
               | Some ts \<Rightarrow>
                   let d = Time_Sub now ts
                   in if d > sint (window s) \<or> d < sint (- window s)
                      then (Some ErrTimestampOutsideWindow, r)
                      else case bodyHashAndRestore P r of
                        (Inl err, r') \<Rightarrow> (Some (ErrBodyRead err), r')
                      | (Inr localHash, r') \<Rightarrow>
                          if \<not> EqualFold bodySHA localHash then (Some ErrBodyHashMismatch, r')
                          else
                            let pathWithQuery =
                                  (if RawQuery r' \<noteq> '''' then EscapedPath r' @ ''?'' @ RawQuery r'
                                   else EscapedPath r');
                                canonical = Join [Method r', pathWithQuery, tsStr, localHash] [CHR 0x0A];
                                expected = hmac_sha256 P secret canonical
                            in case DecodeString sigHex of
                              None \<Rightarrow> (Some ErrBadSignatureEncoding, r')
                            | Some provided \<Rightarrow>
                                if \<not> hmac_Equal provided expected then (Some ErrBadSignature, r')
                                else (None, r'))"

section \<open>The Bearer authenticator\<close>

record BearerAuthenticator =
  bearer_accessSecrets :: "string \<rightharpoonup> string"

definition BearerAuthenticator_Supports :: "request \<Rightarrow> bool" where
  "BearerAuthenticator_Supports r = HasPrefix (Header_Get (Header r) hdrAuthz) (bearerScheme @ '' '')"

definition BearerAuthenticator_Verify :: "BearerAuthenticator \<Rightarrow> request \<Rightarrow> error option" where
  "BearerAuthenticator_Verify s r =
     (let apiKey = Header_Get (Header r) hdrAPIKey;
          authz = Header_Get (Header r) hdrAuthz
      in if apiKey = '''' \<or> authz = '''' then Some ErrMissingAuthHeaders
         else case bearer_accessSecrets s apiKey of
           None \<Rightarrow> Some ErrUnknownApiKey
         | Some secretHex \<Rightarrow>
             if \<not> HasPrefix authz (bearerScheme @ '' '') then Some ErrInvalidAuthScheme
             else
               let sigHex = TrimPrefix authz (bearerScheme @ '' '')
               in if sigHex \<noteq> secretHex then Some ErrNotVerified else None)"

section \<open>The dispatcher (\<^verbatim>\<open>MultiAuthenticator\<close>)\<close>

text \<open>
  The interface \<^verbatim>\<open>ports.Authenticator\<close> is the record of the two methods the dispatcher
  calls. \<open>Verify\<close> returns the error and the request as it leaves it, since the HMAC
  authenticator reads and restores the body.

  The dispatcher holds a Go map from names to authenticators and walks it with
  \<^verbatim>\<open>range\<close>, whose order Go leaves open. The list \<open>authenticators\<close> is the map in the
  order one walk visits it; the theorems hold for every list, so for every order.
\<close>

record Authenticator =
  Supports :: "request \<Rightarrow> bool"
  Verify :: "request \<Rightarrow> error option \<times> request"

record MultiAuthenticator =
  authenticators :: "(string \<times> Authenticator) list"

fun MultiAuthenticator_Supports_loop :: "(string \<times> Authenticator) list \<Rightarrow> request \<Rightarrow> bool" where
  "MultiAuthenticator_Supports_loop [] r = False"
| "MultiAuthenticator_Supports_loop ((name, authenticator) # rest) r =
     (if Supports authenticator r then True else MultiAuthenticator_Supports_loop rest r)"

definition MultiAuthenticator_Supports :: "MultiAuthenticator \<Rightarrow> request \<Rightarrow> bool" where
  "MultiAuthenticator_Supports s r = MultiAuthenticator_Supports_loop (authenticators s) r"

fun MultiAuthenticator_Verify_loop ::
  "(string \<times> Authenticator) list \<Rightarrow> request \<Rightarrow> error option \<times> request" where
  "MultiAuthenticator_Verify_loop [] r = (Some ErrSchemeNotSupported, r)"
| "MultiAuthenticator_Verify_loop ((name, authenticator) # rest) r =
     (if Supports authenticator r then Verify authenticator r
      else MultiAuthenticator_Verify_loop rest r)"

definition MultiAuthenticator_Verify :: "MultiAuthenticator \<Rightarrow> request \<Rightarrow> error option \<times> request" where
  "MultiAuthenticator_Verify s r =
     (let authz = Header_Get (Header r) hdrAuthz
      in if authz = '''' then (Some ErrMissingAuthorizationHeader, r)
         else MultiAuthenticator_Verify_loop (authenticators s) r)"

text \<open>
  The two authenticators \<open>NewMultiAuthenticator\<close> can put into the map, as values of the
  interface. The HMAC one needs the outside functions and the instant of the call.
\<close>

definition HMAC_Authenticator :: "primitives \<Rightarrow> HMACAuthenticator \<Rightarrow> int \<Rightarrow> Authenticator" where
  "HMAC_Authenticator P s now =
     \<lparr>Supports = HMACAuthenticator_Supports, Verify = HMACAuthenticator_Verify P s now\<rparr>"

definition Bearer_Authenticator :: "BearerAuthenticator \<Rightarrow> Authenticator" where
  "Bearer_Authenticator s =
     \<lparr>Supports = BearerAuthenticator_Supports, Verify = (\<lambda>r. (BearerAuthenticator_Verify s r, r))\<rparr>"

section \<open>Notions of the specification\<close>

text \<open>
  A string of white space only: \<^verbatim>\<open>strings.TrimSpace\<close> leaves nothing of it.
\<close>

definition isSpaceString :: "string \<Rightarrow> bool" where
  "isSpaceString ws = (TrimLeftSpace ws = [])"

text \<open>
  The raw-class algorithms, the digest each one names and the number of bytes of that
  digest (\<^verbatim>\<open>[16]byte\<close>, \<^verbatim>\<open>[20]byte\<close>, \<^verbatim>\<open>[32]byte\<close> and \<^verbatim>\<open>[64]byte\<close> in Go).
\<close>

definition rawAlgorithms :: "HashAlgo list" where
  "rawAlgorithms = [AlgoRawMD5, AlgoRawSHA1, AlgoRawSHA256, AlgoRawSHA512]"

definition cryptAlgorithms :: "HashAlgo list" where
  "cryptAlgorithms = [AlgoCryptMD5, AlgoCryptSHA256, AlgoCryptSHA512]"

definition rawDigest :: "primitives \<Rightarrow> HashAlgo \<Rightarrow> string \<Rightarrow> string" where
  "rawDigest P alg =
     (if alg = AlgoRawMD5 then md5_Sum P
      else if alg = AlgoRawSHA1 then sha1_Sum P
      else if alg = AlgoRawSHA256 then sha256_Sum256 P
      else sha512_Sum512 P)"

definition rawDigestSize :: "HashAlgo \<Rightarrow> nat" where
  "rawDigestSize alg =
     (if alg = AlgoRawMD5 then 16
      else if alg = AlgoRawSHA1 then 20
      else if alg = AlgoRawSHA256 then 32
      else 64)"

text \<open>
  A byte that neither begins nor ends the encoding of a white-space rune, so that
  trimming stops at it from either side.
\<close>

definition solid :: "char \<Rightarrow> bool" where
  "solid c = (\<forall>e \<in> set spaceRunes. hd e \<noteq> c \<and> last e \<noteq> c)"

text \<open>
  The checks of \<open>Verify\<close> of the HMAC authenticator that come before the window check:
  the four headers are not empty, the key store knows the key, and the
  \<^verbatim>\<open>Authorization\<close> header begins with \<^verbatim>\<open>HMAC\<close> and a space.
\<close>

definition reachesTimestampCheck :: "HMACAuthenticator \<Rightarrow> request \<Rightarrow> bool" where
  "reachesTimestampCheck s r =
     (Header_Get (Header r) hdrAPIKey \<noteq> '''' \<and> Header_Get (Header r) hdrAuthz \<noteq> ''''
      \<and> Header_Get (Header r) hmacHdrTimestamp \<noteq> '''' \<and> Header_Get (Header r) hmacHdrBodySHA256 \<noteq> ''''
      \<and> hmac_accessSecrets s (Header_Get (Header r) hdrAPIKey) \<noteq> None
      \<and> HasPrefix (Header_Get (Header r) hdrAuthz) ''HMAC '')"

section \<open>An instance of the outside functions\<close>

text \<open>
  The examples evaluate the definitions at concrete inputs and need concrete outside
  functions for that. Each one below is a finite table of values of the real function
  (MD5, SHA-1, SHA-256, SHA-512, HMAC-SHA256, the RFC 3339 parser and the crypt(3)
  routines) at the inputs the examples use, and a fixed value elsewhere. The theorems
  hold for all outside functions and do not refer to this instance.
\<close>

definition unhex :: "string \<Rightarrow> string" where
  "unhex s = (case DecodeString s of None \<Rightarrow> [] | Some b \<Rightarrow> b)"

definition example_md5 :: "string \<Rightarrow> string" where
  "example_md5 p =
     (if p = ''password'' then unhex ''5f4dcc3b5aa765d61d8327deb882cf99''
      else if p = ''Secret123!'' then unhex ''dbd4cd26d06af1db97df0d0aaa46ad59''
      else if p = '''' then unhex ''d41d8cd98f00b204e9800998ecf8427e''
      else replicate 16 (CHR 0x00))"

definition example_sha1 :: "string \<Rightarrow> string" where
  "example_sha1 p =
     (if p = ''password'' then unhex ''5baa61e4c9b93f3f0682250b6cf8331b7ee68fd8''
      else if p = ''Secret123!'' then unhex ''af6daf5f1a60c91f73361dd476c97e496beda065''
      else if p = '''' then unhex ''da39a3ee5e6b4b0d3255bfef95601890afd80709''
      else replicate 20 (CHR 0x00))"

definition example_sha256 :: "string \<Rightarrow> string" where
  "example_sha256 p =
     (if p = ''password'' then unhex ''5e884898da28047151d0e56f8dc6292773603d0d6aabbdd62a11ef721d1542d8''
      else if p = ''Secret123!'' then unhex ''94e0f9bc7f5a5225bd141bad5adf9befcc112aef09b88f47a14e20b75a7bbec2''
      else if p = '''' then unhex ''e3b0c44298fc1c149afbf4c8996fb92427ae41e4649b934ca495991b7852b855''
      else if p = ''hello=world'' then unhex ''3d011e09502a84552a0f8ae112d024cc2c115597e3a577d5f49007902c221dc5''
      else if p = ''hello=worle'' then unhex ''3e8f4c938cbddb295efa7d920fd25da23f6aa71656c96a26734ba280432b6aa9''
      else replicate 32 (CHR 0x00))"

definition example_sha512 :: "string \<Rightarrow> string" where
  "example_sha512 p =
     (if p = ''password'' then unhex ''b109f3bbbc244eb82441917ed06d618b9008dd09b3befd1b5e07394c706a8bb980b1d7785e5976ec049b46df5f1326af5a2ea6d103fd07c95385ffab0cacbc86''
      else if p = ''Secret123!'' then unhex ''e7c4f7a6da2f1c5c67dbc6fe9f229ebbfd9a6199aa65319d20e43df9b871fce2294436f157f244dc74b7e250c6c0e5f6ecab5d53c67fbcc60d02dfd78f072047''
      else if p = '''' then unhex ''cf83e1357eefb8bdf1542850d66d8007d620e4050b5715dc83f4a921d36ce9ce47d0d13c5d85f2b0ff8318d2877eec2f63b931bd47417a81a538327af927da3e''
      else replicate 64 (CHR 0x00))"

definition example_secret :: string where
  "example_secret = unhex ''00112233445566778899aabbccddeeff00112233445566778899aabbccddeeff''"

definition example_hmac :: "string \<Rightarrow> string \<Rightarrow> string" where
  "example_hmac key msg =
     (if key \<noteq> example_secret then replicate 32 (CHR 0x00)
      else if msg = ''POST'' @ [CHR 0x0A] @ ''/api/users?x=1'' @ [CHR 0x0A] @ ''2025-01-01T00:00:00Z'' @ [CHR 0x0A] @ ''3d011e09502a84552a0f8ae112d024cc2c115597e3a577d5f49007902c221dc5''
        then unhex ''54948a88862460a7d32827aeb4330afce285c796cbcbec81de878fefe27fd074''
      else if msg = ''POSU'' @ [CHR 0x0A] @ ''/api/users?x=1'' @ [CHR 0x0A] @ ''2025-01-01T00:00:00Z'' @ [CHR 0x0A] @ ''3d011e09502a84552a0f8ae112d024cc2c115597e3a577d5f49007902c221dc5''
        then unhex ''efe7dbabf9c088db425eb310db08e3ac4aeb71454276d02385e6fc7a2c46da00''
      else if msg = ''POST'' @ [CHR 0x0A] @ ''/api/users?x=2'' @ [CHR 0x0A] @ ''2025-01-01T00:00:00Z'' @ [CHR 0x0A] @ ''3d011e09502a84552a0f8ae112d024cc2c115597e3a577d5f49007902c221dc5''
        then unhex ''65073e2eeacf4c27c00b4933bed38ae0bc96631c29de4b45b01dee19c6b43ec1''
      else if msg = ''POST'' @ [CHR 0x0A] @ ''/api/users?x=1'' @ [CHR 0x0A] @ ''2025-01-01T00:00:01Z'' @ [CHR 0x0A] @ ''3d011e09502a84552a0f8ae112d024cc2c115597e3a577d5f49007902c221dc5''
        then unhex ''4b9c61bac3683976e2cf70a986c9875629d99b4855e85565ce56bac9f20d02af''
      else replicate 32 (CHR 0x00))"

definition example_time_Parse :: "string \<Rightarrow> int option" where
  "example_time_Parse s =
     (if s = ''2025-01-01T00:00:00Z'' then Some 1735689600000000000
      else if s = ''2025-01-01T00:00:01Z'' then Some 1735689601000000000
      else None)"

text \<open>
  The salt that MD5-crypt reads from a salt specification: what follows \<^verbatim>\<open>$1$\<close> up to the
  next \<^verbatim>\<open>$\<close>, and of that at most eight characters. The scheme has no field for rounds.
\<close>

definition md5_crypt_salt :: "string \<Rightarrow> string" where
  "md5_crypt_salt spec = take 8 (takeWhile (\<lambda>c. c \<noteq> CHR ''$'') (drop 3 spec))"

definition example_md5_crypt :: crypter where
  "example_md5_crypt =
     \<lparr>crypter_Generate = (\<lambda>key salt.
        if HasPrefix salt ''$1$'' \<and> key = ''Secret123!'' \<and> md5_crypt_salt salt = ''rounds=5''
        then Inr ''$1$rounds=5$yRTC.jt.xbXK2DYDOBc6c1''
        else Inl (ErrCrypt ''not in the table'')),
      crypter_Verify = (\<lambda>hashed key.
        if hashed = ''$1$rounds=5$yRTC.jt.xbXK2DYDOBc6c1'' \<and> key = ''Secret123!''
        then None else Some (ErrCrypt ''mismatch''))\<rparr>"

definition example_sha256_crypt :: crypter where
  "example_sha256_crypt =
     \<lparr>crypter_Generate = (\<lambda>key salt.
        if key = ''Secret123!'' \<and> salt = ''$5$rounds=5000$abcdefghijklmnop''
        then Inr ''$5$rounds=5000$abcdefghijklmnop$rLfZzOakoU0855rDbYtz0rTdFWVDWjtV3QvH8Pgpbe1''
        else Inl (ErrCrypt ''not in the table'')),
      crypter_Verify = (\<lambda>hashed key.
        if hashed = ''$5$rounds=5000$abcdefghijklmnop$rLfZzOakoU0855rDbYtz0rTdFWVDWjtV3QvH8Pgpbe1''
           \<and> key = ''Secret123!''
        then None else Some (ErrCrypt ''mismatch''))\<rparr>"

definition example_sha512_crypt :: crypter where
  "example_sha512_crypt =
     \<lparr>crypter_Generate = (\<lambda>key salt.
        if key = ''Secret123!'' \<and> salt = ''$6$rounds=5000$abcdefghijklmnop''
        then Inr
          ''$6$rounds=5000$abcdefghijklmnop$Mu2kYdM/cUxmhY5LVAbtqj3NEztghLoO2T.un5yHfbH1qlZVeZWdI9BwAajEl/x.OWmnMgDkX9TfwWDvpLDdC.''
        else Inl (ErrCrypt ''not in the table'')),
      crypter_Verify = (\<lambda>hashed key.
        if hashed =
          ''$6$rounds=5000$abcdefghijklmnop$Mu2kYdM/cUxmhY5LVAbtqj3NEztghLoO2T.un5yHfbH1qlZVeZWdI9BwAajEl/x.OWmnMgDkX9TfwWDvpLDdC.''
           \<and> key = ''Secret123!''
        then None else Some (ErrCrypt ''mismatch''))\<rparr>"

definition example_primitives :: primitives where
  "example_primitives =
     \<lparr>md5_Sum = example_md5,
      sha1_Sum = example_sha1,
      sha256_Sum256 = example_sha256,
      sha512_Sum512 = example_sha512,
      hmac_sha256 = example_hmac,
      time_Parse_RFC3339 = example_time_Parse,
      md5_crypt_New = example_md5_crypt,
      sha256_crypt_New = example_sha256_crypt,
      sha512_crypt_New = example_sha512_crypt\<rparr>"

definition example_hasher :: DefaultHasher where
  "example_hasher =
     \<lparr>rr = Reader ''0123456789abcdefghijklmnopqrstuvwxyz'' EOF,
      defaultAlg = AlgoCryptSHA256,
      defaultAlgId = 5,
      defaultCrypter = example_sha256_crypt,
      defaultRounds = 5000,
      defaultSaltLen = 16\<rparr>"

text \<open>
  The requests and the authenticators of the examples: the key \<^verbatim>\<open>test-key\<close> with the
  secret of the repository's tests, a window of 300 seconds, and a dispatcher holding
  both authenticators.
\<close>

definition example_request ::
  "string \<Rightarrow> string \<Rightarrow> string \<Rightarrow> (string \<times> string) list \<Rightarrow> body \<Rightarrow> request" where
  "example_request m path query hs b =
     \<lparr>Method = m, EscapedPath = path, RawQuery = query,
      Header = map_of (map (\<lambda>(k, v). (k, [v])) hs), Body = b\<rparr>"

definition example_secretHex :: string where
  "example_secretHex = ''00112233445566778899aabbccddeeff00112233445566778899aabbccddeeff''"

definition example_bearer :: BearerAuthenticator where
  "example_bearer = \<lparr>bearer_accessSecrets = [''test-key'' \<mapsto> example_secretHex]\<rparr>"

definition example_hmac_authenticator :: HMACAuthenticator where
  "example_hmac_authenticator =
     \<lparr>window = NewHMACAuthenticator_window 300,
      hmac_accessSecrets = [''test-key'' \<mapsto> example_secret]\<rparr>"

definition example_now :: int where
  "example_now = 1735689600000000000"

definition example_multi :: MultiAuthenticator where
  "example_multi =
     \<lparr>authenticators =
        [(''bearer'', Bearer_Authenticator example_bearer),
         (''hmac'', HMAC_Authenticator example_primitives example_hmac_authenticator example_now)]\<rparr>"

section \<open>Detection: the loop and the case folding\<close>

lemmas Algo_defs = AlgoCryptMD5_def AlgoCryptSHA256_def AlgoCryptSHA512_def
  AlgoRawMD5_def AlgoRawSHA1_def AlgoRawSHA256_def AlgoRawSHA512_def

lemma isHexLoop_drop:
  "i \<le> n \<Longrightarrow> n = length s \<Longrightarrow> isHexLoop s n i = list_all isLowerHex (drop i s)"
proof (induction s n i rule: isHexLoop.induct)
  case (1 s n i)
  show ?case
  proof (cases "i < n")
    case False
    with "1.prems" show ?thesis by (subst isHexLoop.simps) simp
  next
    case True
    with "1.prems" have d: "drop i s = s ! i # drop (Suc i) s"
      by (simp add: Cons_nth_drop_Suc)
    have ih: "isHexLoop s n (Suc i) = list_all isLowerHex (drop (Suc i) s)"
      if h: "isLowerHex (s ! i)"
    proof -
      from h have
        "byte (CHR ''0'') \<le> byte (s ! i) \<and> byte (s ! i) \<le> byte (CHR ''9'') \<or>
         \<not> (byte (CHR ''0'') \<le> byte (s ! i) \<and> byte (s ! i) \<le> byte (CHR ''9'')) \<and>
         byte (CHR ''a'') \<le> byte (s ! i) \<and> byte (s ! i) \<le> byte (CHR ''f'')"
        unfolding isLowerHex_def by blast
      then show ?thesis
        using True "1.prems" "1.IH" by fastforce
    qed
    from True have step: "isHexLoop s n i = (isLowerHex (s ! i) \<and> isHexLoop s n (Suc i))"
      by (subst isHexLoop.simps) (auto simp: isLowerHex_def Let_def)
    show ?thesis
      using ih by (auto simp only: step d list.pred_inject)
  qed
qed

lemma isHexLen_iff: "isHexLen s n \<longleftrightarrow> length s = n \<and> list_all isLowerHex s"
  using isHexLoop_drop [of 0 n s] by (auto simp: isHexLen_def)

lemma byte_less_256: "byte c < 256"
  unfolding byte_def by (metis of_char_mod_256 mod_less_divisor zero_less_numeral)

lemma byte_eq_iff: "byte c = byte d \<longleftrightarrow> c = d"
  by (simp add: byte_def)

lemma byte_toLowerByte:
  "byte (toLowerByte c) = (if 65 \<le> byte c \<and> byte c \<le> 90 then byte c + 32 else byte c)"
proof -
  have "byte (char_of (byte c + 32)) = byte c + 32" if "byte c \<le> 90"
    using that by (simp add: byte_def)
  then show ?thesis by (simp add: toLowerByte_def) (simp add: byte_def)
qed

lemma isLowerHex_toLowerByte: "isLowerHex (toLowerByte c) \<longleftrightarrow> isHexChar c"
  unfolding isLowerHex_def isHexChar_def byte_toLowerByte
  by (simp add: byte_def) arith

lemma isHexLen_ToLower:
  "isHexLen (ToLower s) n \<longleftrightarrow> length s = n \<and> list_all isHexChar s"
  by (simp add: isHexLen_iff ToLower_def list_all_iff isLowerHex_toLowerByte)

lemma DetectHashAlgo_eq: "DetectHashAlgo s = classify_spec (TrimSpace s)"
  by (simp add: DetectHashAlgo_def classify_spec_def isHexLen_ToLower Let_def)

text \<open>
  Claim C2, as amended. \<open>DetectHashAlgo\<close> classifies the stored string after
  \<^verbatim>\<open>strings.TrimSpace\<close> has removed the white space around it, not the string as it is:
  on the trimmed string, the prefix \<^verbatim>\<open>$6$\<close> gives crypt-sha512, \<^verbatim>\<open>$5$\<close> crypt-sha256 and
  \<^verbatim>\<open>$1$\<close> crypt-md5; otherwise exactly 32, 40, 64 or 128 characters, all in
  \<^verbatim>\<open>0-9a-fA-F\<close>, give raw-md5, raw-sha1, raw-sha256 or raw-sha512; otherwise the result is
  the unsupported-algorithm error. The prefixes are tested before the lengths. The
  function is total and is a function of the string alone.
\<close>

theorem DetectHashAlgo_classifies_trimmed:
  "DetectHashAlgo s = classify_spec (TrimSpace s)"
  by (rule DetectHashAlgo_eq)

text \<open>
  Claim C2 as stated fails: the string of a space followed by \<^verbatim>\<open>$6$\<close> does not begin with
  \<^verbatim>\<open>$6$\<close> and is no hex string of a supported length, so classified as it is it would be
  unsupported, and the code returns crypt-sha512 for it.
\<close>

theorem DetectHashAlgo_untrimmed_counterexample:
  "DetectHashAlgo '' $6$'' = (AlgoCryptSHA512, None) \<and>
   classify_spec '' $6$'' = ('''', Some ErrUnsupportedAlgorithm)"
  by code_simp

section \<open>White space and \<open>TrimSpace\<close>\<close>

lemma find_prefix_rune:
  "e \<in> set spaceRunes \<Longrightarrow> find (HasPrefix (e @ t)) spaceRunes = Some e"
  unfolding spaceRunes_def
  by (simp only: set_simps insert_iff empty_iff) (elim disjE FalseE; simp add: HasPrefix_def)

lemma HasSuffix_rev: "HasSuffix s e \<longleftrightarrow> HasPrefix (rev s) (rev e)"
  by (auto simp: HasSuffix_def HasPrefix_def take_rev rev_swap drop_rev)

lemma find_suffix_rune:
  "e \<in> set spaceRunes \<Longrightarrow> find (HasSuffix (t @ e)) spaceRunes = Some e"
  unfolding spaceRunes_def HasSuffix_rev
  by (simp only: set_simps insert_iff empty_iff) (elim disjE FalseE; simp add: HasPrefix_def)

lemma spaceRunes_nonempty: "e \<in> set spaceRunes \<Longrightarrow> e \<noteq> []"
  by (auto simp: spaceRunes_def)

lemma TrimLeftSpace_rune: "e \<in> set spaceRunes \<Longrightarrow> TrimLeftSpace (e @ t) = TrimLeftSpace t"
  by (subst TrimLeftSpace.simps) (simp add: find_prefix_rune)

lemma TrimRightSpace_rune: "e \<in> set spaceRunes \<Longrightarrow> TrimRightSpace (t @ e) = TrimRightSpace t"
  by (subst TrimRightSpace.simps) (simp add: find_suffix_rune)

lemma TrimLeftSpace_concat:
  "set es \<subseteq> set spaceRunes \<Longrightarrow> TrimLeftSpace (concat es @ t) = TrimLeftSpace t"
  by (induction es) (simp_all add: TrimLeftSpace_rune)

lemma TrimRightSpace_concat:
  "set es \<subseteq> set spaceRunes \<Longrightarrow> TrimRightSpace (t @ concat es) = TrimRightSpace t"
proof (induction es rule: rev_induct)
  case Nil
  then show ?case by simp
next
  case (snoc e es)
  then have "TrimRightSpace ((t @ concat es) @ e) = TrimRightSpace (t @ concat es)"
    by (intro TrimRightSpace_rune) simp
  with snoc show ?case by simp
qed

lemma isSpaceString_concat:
  "TrimLeftSpace ws = [] \<Longrightarrow> \<exists>es. set es \<subseteq> set spaceRunes \<and> ws = concat es"
proof (induction ws rule: TrimLeftSpace.induct)
  case (1 s)
  show ?case
  proof (cases "find (HasPrefix s) spaceRunes")
    case None
    with "1.prems" have "s = []" by (simp add: TrimLeftSpace.simps [of s])
    then show ?thesis by (intro exI [of _ "[]"]) simp
  next
    case (Some e)
    then have e: "e \<in> set spaceRunes" and p: "HasPrefix s e"
      by (auto simp: find_Some_iff)
    from Some "1.prems" have "TrimLeftSpace (drop (length e) s) = []"
      by (simp add: TrimLeftSpace.simps [of s])
    with "1.IH" [OF Some] obtain es where
      es: "set es \<subseteq> set spaceRunes" "drop (length e) s = concat es" by blast
    from p have "s = e @ drop (length e) s"
      by (metis HasPrefix_def append_take_drop_id)
    with es e show ?thesis
      by (intro exI [of _ "e # es"]) simp
  qed
qed

lemma TrimLeftSpace_space_append:
  "isSpaceString ws \<Longrightarrow> TrimLeftSpace (ws @ t) = TrimLeftSpace t"
  using isSpaceString_concat TrimLeftSpace_concat unfolding isSpaceString_def by blast

lemma TrimRightSpace_append_space:
  "isSpaceString ws \<Longrightarrow> TrimRightSpace (t @ ws) = TrimRightSpace t"
  using isSpaceString_concat TrimRightSpace_concat unfolding isSpaceString_def by blast

lemma TrimLeftSpace_no_lead:
  assumes "\<forall>e \<in> set spaceRunes. hd e \<noteq> c"
  shows "TrimLeftSpace (c # t) = c # t"
proof -
  have "\<not> HasPrefix (c # t) e" if "e \<in> set spaceRunes" for e
  proof
    assume "HasPrefix (c # t) e"
    moreover from that have "e \<noteq> []" by (rule spaceRunes_nonempty)
    ultimately have "hd e = c" by (cases e) (auto simp: HasPrefix_def)
    with assms that show False by blast
  qed
  then have "find (HasPrefix (c # t)) spaceRunes = None"
    by (simp add: find_None_iff)
  then show ?thesis by (simp add: TrimLeftSpace.simps [of "c # t"])
qed

lemma TrimRightSpace_no_tail:
  assumes "\<forall>e \<in> set spaceRunes. last e \<noteq> c"
  shows "TrimRightSpace (t @ [c]) = t @ [c]"
proof -
  have "\<not> HasSuffix (t @ [c]) e" if "e \<in> set spaceRunes" for e
  proof
    assume "HasSuffix (t @ [c]) e"
    then have "HasPrefix (c # rev t) (rev e)" by (simp add: HasSuffix_rev)
    moreover from that have "rev e \<noteq> []" by (simp add: spaceRunes_nonempty)
    ultimately have "hd (rev e) = c" by (cases "rev e") (auto simp: HasPrefix_def)
    then have "last e = c" by (simp add: hd_rev)
    with assms that show False by blast
  qed
  then have "find (HasSuffix (t @ [c])) spaceRunes = None"
    by (simp add: find_None_iff)
  then show ?thesis by (simp add: TrimRightSpace.simps [of "t @ [c]"])
qed

lemma isHexChar_solid: "isHexChar c \<Longrightarrow> solid c"
  unfolding solid_def spaceRunes_def
  by (auto simp: isHexChar_def byte_def)

lemma dollar_solid: "solid (CHR ''$'')"
  unfolding solid_def spaceRunes_def by simp

lemma TrimSpace_solid:
  assumes "D \<noteq> []" "solid (hd D)" "solid (last D)" "isSpaceString ws1" "isSpaceString ws2"
  shows "TrimSpace (ws1 @ D @ ws2) = D"
proof -
  from assms(1) obtain c t where D1: "D = c # t" by (cases D) auto
  from assms(1) obtain t' c' where D2: "D = t' @ [c']" by (cases D rule: rev_cases) auto
  have "TrimLeftSpace (ws1 @ D @ ws2) = TrimLeftSpace (D @ ws2)"
    using assms(4) by (rule TrimLeftSpace_space_append)
  also have "\<dots> = D @ ws2"
    using assms(2) TrimLeftSpace_no_lead [of c "t @ ws2"] by (simp add: D1 solid_def)
  finally have "TrimSpace (ws1 @ D @ ws2) = TrimRightSpace (D @ ws2)"
    by (simp add: TrimSpace_def)
  also have "\<dots> = TrimRightSpace D"
    using assms(5) by (rule TrimRightSpace_append_space)
  also have "\<dots> = D"
    using assms(3) TrimRightSpace_no_tail [of c' t'] by (simp add: D2 solid_def)
  finally show ?thesis .
qed

lemma isSpaceString_Nil: "isSpaceString []"
  by (simp add: isSpaceString_def TrimLeftSpace.simps [of "[]"] spaceRunes_def HasPrefix_def)

section \<open>Hex encoding and decoding\<close>

lemma hextable_nth_lower: "n < 16 \<Longrightarrow> isLowerHex (hextable ! n)"
proof -
  assume "n < 16"
  then have "n \<in> {0,1,2,3,4,5,6,7,8,9,10,11,12,13,14,15}"
    by (simp only: insert_iff empty_iff) arith
  then show ?thesis
    by (elim insertE emptyE) (simp_all add: hextable_def isLowerHex_def byte_def)
qed

lemma fromHexChar_hextable: "n < 16 \<Longrightarrow> fromHexChar (hextable ! n) = Some n"
proof -
  assume "n < 16"
  then have "n \<in> {0,1,2,3,4,5,6,7,8,9,10,11,12,13,14,15}"
    by (simp only: insert_iff empty_iff) arith
  then show ?thesis
    by (elim insertE emptyE) (simp_all add: hextable_def fromHexChar_def byte_def)
qed

lemma EncodeToString_Nil [simp]: "EncodeToString [] = []"
  by (simp add: EncodeToString_def)

lemma EncodeToString_Cons:
  "EncodeToString (v # vs) = hextable ! (byte v div 16) # hextable ! (byte v mod 16) # EncodeToString vs"
  by (simp add: EncodeToString_def)

lemma length_EncodeToString: "length (EncodeToString bs) = 2 * length bs"
  by (induction bs) (simp_all add: EncodeToString_Cons)

lemma byte_div16: "byte v div 16 < 16"
  using byte_less_256 [of v] by simp

lemma EncodeToString_lower: "list_all isLowerHex (EncodeToString bs)"
  by (induction bs) (simp_all add: EncodeToString_Cons hextable_nth_lower byte_div16)

lemma DecodeString_EncodeToString: "DecodeString (EncodeToString bs) = Some bs"
proof (induction bs)
  case Nil
  then show ?case by simp
next
  case (Cons v vs)
  have "char_of (byte v div 16 * 16 + byte v mod 16) = v"
    by (simp add: byte_def)
  with Cons show ?case
    by (simp add: EncodeToString_Cons fromHexChar_hextable byte_div16)
qed

lemma inj_EncodeToString: "EncodeToString a = EncodeToString b \<Longrightarrow> a = b"
  by (metis DecodeString_EncodeToString option.inject)

lemma isLowerHex_isHexChar: "isLowerHex c \<Longrightarrow> isHexChar c"
  by (auto simp: isLowerHex_def isHexChar_def)

lemma toLowerByte_lower: "isLowerHex c \<Longrightarrow> toLowerByte c = c"
  by (auto simp: isLowerHex_def toLowerByte_def byte_def)

lemma ToLower_lower: "list_all isLowerHex s \<Longrightarrow> ToLower s = s"
  by (induction s) (simp_all add: ToLower_def toLowerByte_lower)

section \<open>The hasher\<close>








lemma IsCrypt_raw: "alg \<in> set rawAlgorithms \<Longrightarrow> \<not> IsCrypt alg"
  by (auto simp: rawAlgorithms_def IsCrypt_def HasPrefix_def Algo_defs)

lemma resolveHash_raw: "alg \<in> set rawAlgorithms \<Longrightarrow> resolveHash P alg = Inr (rawDigest P alg)"
  by (auto simp: rawAlgorithms_def resolveHash_def rawDigest_def Algo_defs)

lemma Hash_raw:
  "alg \<in> set rawAlgorithms \<Longrightarrow>
   DefaultHasher_Hash P c plain alg rounds saltLen = (Inr (EncodeToString (rawDigest P alg plain)), c)"
  by (simp add: DefaultHasher_Hash_def IsCrypt_raw resolveHash_raw)

text \<open>
  Claim C6. For a raw-class algorithm, \<open>Hash\<close> returns the lower-case hex encoding of
  the digest of the plaintext and leaves the hasher, and with it the reader of random
  bytes, as it was. The result does not depend on the hasher, on \<open>rounds\<close> or on
  \<open>saltLen\<close>, so two calls with the same plaintext return the same stored hash.
\<close>

theorem Hash_raw_deterministic:
  assumes "alg \<in> set rawAlgorithms"
  shows "DefaultHasher_Hash P c plain alg rounds saltLen
           = (Inr (EncodeToString (rawDigest P alg plain)), c)
         \<and> fst (DefaultHasher_Hash P c plain alg rounds saltLen)
           = fst (DefaultHasher_Hash P c' plain alg rounds' saltLen')
         \<and> list_all isLowerHex (EncodeToString (rawDigest P alg plain))"
  using assms by (simp add: Hash_raw EncodeToString_lower)

theorem Hash_raw_deterministic_witness:
  "AlgoRawMD5 \<in> set rawAlgorithms
   \<and> DefaultHasher_Hash example_primitives example_hasher ''password'' AlgoRawMD5 (Some 5000) (Some 8)
       = (Inr ''5f4dcc3b5aa765d61d8327deb882cf99'', example_hasher)
   \<and> fst (DefaultHasher_Hash example_primitives example_hasher ''password'' AlgoRawMD5 (Some 5000) (Some 8))
       = fst (DefaultHasher_Hash example_primitives example_hasher ''password'' AlgoRawMD5 None (Some 0))"
proof -
  have a: "AlgoRawMD5 \<in> set rawAlgorithms" by (simp add: rawAlgorithms_def)
  have e: "EncodeToString (rawDigest example_primitives AlgoRawMD5 ''password'')
             = ''5f4dcc3b5aa765d61d8327deb882cf99''"
    by code_simp
  note h = Hash_raw_deterministic [OF a, where P = example_primitives and c = example_hasher
      and plain = "''password''" and rounds = "Some 5000" and saltLen = "Some 8"
      and c' = example_hasher and rounds' = None and saltLen' = "Some 0"]
  from h have h1: "DefaultHasher_Hash example_primitives example_hasher ''password'' AlgoRawMD5
       (Some 5000) (Some 8)
       = (Inr (EncodeToString (rawDigest example_primitives AlgoRawMD5 ''password'')), example_hasher)"
    by blast
  from h have h2: "fst (DefaultHasher_Hash example_primitives example_hasher ''password'' AlgoRawMD5 (Some 5000) (Some 8))
       = fst (DefaultHasher_Hash example_primitives example_hasher ''password'' AlgoRawMD5 None (Some 0))"
    by blast
  from h1 e have h3: "DefaultHasher_Hash example_primitives example_hasher ''password'' AlgoRawMD5
       (Some 5000) (Some 8) = (Inr ''5f4dcc3b5aa765d61d8327deb882cf99'', example_hasher)"
    by (simp only:)
  from a h3 h2 show ?thesis by blast
qed

lemma IsCrypt_crypt: "alg \<in> set cryptAlgorithms \<Longrightarrow> IsCrypt alg"
  by (auto simp: cryptAlgorithms_def IsCrypt_def HasPrefix_def Algo_defs)

lemma resolveCrypter_crypt:
  "alg \<in> set cryptAlgorithms \<Longrightarrow> \<exists>algId cr. resolveCrypter P alg = (algId, Some cr, None)"
  by (auto simp: cryptAlgorithms_def resolveCrypter_def Algo_defs)

lemma validateParams_None_iff:
  "validateParams rounds saltLen = None \<longleftrightarrow>
     1000 \<le> rounds \<and> rounds \<le> 1000000 \<and> 1 \<le> saltLen \<and> saltLen \<le> 16"
  by (auto simp: validateParams_def)

lemma prepareSaltSpec_invalid:
  "validateParams rounds saltLen = Some e \<Longrightarrow> prepareSaltSpec r algId rounds saltLen = (Inl e, r)"
  by (simp add: prepareSaltSpec_def)

text \<open>
  Claim C7. For a crypt-class algorithm, with \<open>ro\<close> and \<open>sl\<close> the rounds and the salt
  length in effect (the argument, or the default of the hasher when the argument is nil):
  when \<open>ro\<close> is outside 1000..1000000 or \<open>sl\<close> outside 1..16, \<open>validateParams\<close> returns
  an error, \<open>prepareSaltSpec\<close> returns it with the reader untouched, and \<open>Hash\<close>
  returns it, with no stored hash and the hasher (its reader included) unchanged; when
  both are inside their ranges, validation passes.
\<close>

theorem Hash_validates_before_randomness:
  assumes "alg \<in> set cryptAlgorithms"
    and "ro = (case rounds of None \<Rightarrow> defaultRounds c | Some n \<Rightarrow> n)"
    and "sl = (case saltLen of None \<Rightarrow> defaultSaltLen c | Some n \<Rightarrow> n)"
  shows "(ro < 1000 \<or> 1000000 < ro \<or> sl < 1 \<or> 16 < sl \<longrightarrow>
            (\<exists>e. validateParams ro sl = Some e
               \<and> prepareSaltSpec (rr c) algId ro sl = (Inl e, rr c)
               \<and> DefaultHasher_Hash P c plain alg rounds saltLen = (Inl e, c)))
         \<and> (1000 \<le> ro \<and> ro \<le> 1000000 \<and> 1 \<le> sl \<and> sl \<le> 16 \<longrightarrow> validateParams ro sl = None)"
proof -
  from assms(1) obtain aid cr where rc: "resolveCrypter P alg = (aid, Some cr, None)"
    using resolveCrypter_crypt by blast
  have "\<exists>e. validateParams ro sl = Some e
               \<and> prepareSaltSpec (rr c) algId ro sl = (Inl e, rr c)
               \<and> DefaultHasher_Hash P c plain alg rounds saltLen = (Inl e, c)"
    if "ro < 1000 \<or> 1000000 < ro \<or> sl < 1 \<or> 16 < sl"
  proof -
    from that obtain e where e: "validateParams ro sl = Some e"
      using validateParams_None_iff [of ro sl] by (cases "validateParams ro sl") auto
    then have "DefaultHasher_Hash P c plain alg rounds saltLen = (Inl e, c)"
      using assms rc
      by (simp add: DefaultHasher_Hash_def IsCrypt_crypt prepareSaltSpec_invalid Let_def)
    with e show ?thesis by (simp add: prepareSaltSpec_invalid)
  qed
  then show ?thesis by (simp add: validateParams_None_iff)
qed

theorem Hash_validates_before_randomness_witness:
  "AlgoCryptSHA512 \<in> set cryptAlgorithms
   \<and> DefaultHasher_Hash example_primitives example_hasher ''password'' AlgoCryptSHA512 (Some 999) None
       = (Inl ErrRounds, example_hasher)
   \<and> DefaultHasher_Hash example_primitives example_hasher ''password'' AlgoCryptSHA512 None (Some 17)
       = (Inl ErrSaltLength, example_hasher)
   \<and> validateParams 1000 16 = None \<and> validateParams 1000000 1 = None"
proof -
  have a: "AlgoCryptSHA512 \<in> set cryptAlgorithms" by (simp add: cryptAlgorithms_def)
  have v1: "validateParams 999 16 = Some ErrRounds" by (simp add: validateParams_def)
  have v2: "validateParams 5000 17 = Some ErrSaltLength" by (simp add: validateParams_def)
  have d: "defaultRounds example_hasher = 5000" "defaultSaltLen example_hasher = 16"
    by (simp_all add: example_hasher_def)
  from Hash_validates_before_randomness [OF a, where ro = 999 and rounds = "Some 999"
      and c = example_hasher and sl = 16 and saltLen = None and algId = 6
      and P = example_primitives and plain = "''password''"] v1 d
  have h1: "DefaultHasher_Hash example_primitives example_hasher ''password'' AlgoCryptSHA512 (Some 999) None
       = (Inl ErrRounds, example_hasher)" by simp
  from Hash_validates_before_randomness [OF a, where ro = 5000 and rounds = None
      and c = example_hasher and sl = 17 and saltLen = "Some 17" and algId = 6
      and P = example_primitives and plain = "''password''"] v2 d
  have h2: "DefaultHasher_Hash example_primitives example_hasher ''password'' AlgoCryptSHA512 None (Some 17)
       = (Inl ErrSaltLength, example_hasher)" by simp
  from Hash_validates_before_randomness [OF a, where ro = 1000 and rounds = "Some 1000"
      and c = example_hasher and sl = 16 and saltLen = None and algId = 6
      and P = example_primitives and plain = "''password''"] d
  have h3: "validateParams 1000 16 = None" by simp
  from Hash_validates_before_randomness [OF a, where ro = 1000000 and rounds = "Some 1000000"
      and c = example_hasher and sl = 1 and saltLen = "Some 1" and algId = 6
      and P = example_primitives and plain = "''password''"]
  have h4: "validateParams 1000000 1 = None" by simp
  from a h1 h2 h3 h4 show ?thesis by blast
qed

section \<open>Raw digests: white space and letter case\<close>

lemma stringsEq_iff: "stringsEq a b \<longleftrightarrow> a = b"
  by (auto simp: stringsEq_def ConstantTimeCompare_def)

lemma Verify_raw:
  assumes "alg \<in> set rawAlgorithms" and "DetectHashAlgo hashed = (alg, None)"
  shows "DefaultHasher_Verify P hashed plain
           = (ToLower hashed = EncodeToString (rawDigest P alg plain), alg, None)"
proof -
  from assms(1) have "alg = AlgoRawMD5 \<or> alg = AlgoRawSHA1 \<or> alg = AlgoRawSHA256 \<or> alg = AlgoRawSHA512"
    by (simp add: rawAlgorithms_def)
  then show ?thesis
    using assms(2)
    by (elim disjE) (simp_all add: DefaultHasher_Verify_def rawDigest_def stringsEq_iff Algo_defs)
qed

lemma hex_no_dollar_prefix:
  assumes "s \<noteq> []" "isHexChar (hd s)"
  shows "\<not> HasPrefix s (CHR ''$'' # p)"
proof
  assume "HasPrefix s (CHR ''$'' # p)"
  with assms(1) have "hd s = CHR ''$''" by (cases s) (auto simp: HasPrefix_def)
  with assms(2) show False by (simp add: isHexChar_def byte_def)
qed

lemma classify_spec_hex:
  assumes "alg \<in> set rawAlgorithms" "length s = 2 * rawDigestSize alg" "list_all isHexChar s"
  shows "classify_spec s = (alg, None)"
proof -
  from assms(1) have alg: "alg = AlgoRawMD5 \<or> alg = AlgoRawSHA1 \<or> alg = AlgoRawSHA256 \<or> alg = AlgoRawSHA512"
    by (simp add: rawAlgorithms_def)
  from alg assms(2) have ne: "s \<noteq> []"
    by (auto simp: rawDigestSize_def Algo_defs)
  with assms(3) have "isHexChar (hd s)" by (cases s) auto
  with ne have np: "\<not> HasPrefix s ''$6$''" "\<not> HasPrefix s ''$5$''" "\<not> HasPrefix s ''$1$''"
    by (simp_all add: hex_no_dollar_prefix)
  from alg show ?thesis
    using assms(2,3) np
    by (elim disjE) (simp_all add: classify_spec_def rawDigestSize_def Algo_defs)
qed

lemma TrimSpace_hex:
  assumes "s \<noteq> []" "list_all isHexChar s" "isSpaceString ws1" "isSpaceString ws2"
  shows "TrimSpace (ws1 @ s @ ws2) = s"
proof -
  from assms(1,2) have "isHexChar (hd s)" by (cases s) auto
  moreover from assms(1,2) have "isHexChar (last s)" by (cases s rule: rev_cases) auto
  ultimately show ?thesis
    using assms by (intro TrimSpace_solid) (simp_all add: isHexChar_solid)
qed

lemma list_all_isHexChar_ToLower:
  "list_all isLowerHex (ToLower h) \<Longrightarrow> list_all isHexChar h"
  by (simp add: ToLower_def list_all_iff isLowerHex_toLowerByte)

text \<open>
  Claim C10. Let \<open>D\<close> be the hex digest of the plaintext under a raw-class algorithm (the
  digest having the length of its type). If white space is added around \<open>D\<close>, at least
  one character of it, detection still sees \<open>D\<close> and returns the algorithm, and \<open>Verify\<close>
  returns \<open>matched = false\<close> with the algorithm and a nil error: it compares the untrimmed
  string, which is longer than the digest. A spelling \<open>h\<close> of \<open>D\<close> in another letter case
  (\<open>ToLower h = D\<close>, the upper-case one for example) with no white space around it gives
  \<open>matched = true\<close>.
\<close>

theorem Verify_raw_whitespace_and_case:
  assumes "alg \<in> set rawAlgorithms"
    and "length (rawDigest P alg plain) = rawDigestSize alg"
    and "D = EncodeToString (rawDigest P alg plain)"
  shows "(isSpaceString wsl \<and> isSpaceString wsr \<and> wsl @ wsr \<noteq> [] \<longrightarrow>
            TrimSpace (wsl @ D @ wsr) = D
            \<and> DetectHashAlgo (wsl @ D @ wsr) = (alg, None)
            \<and> DefaultHasher_Verify P (wsl @ D @ wsr) plain = (False, alg, None))
         \<and> (ToLower h = D \<longrightarrow> DefaultHasher_Verify P h plain = (True, alg, None))"
proof -
  have lenD: "length D = 2 * rawDigestSize alg"
    using assms(2,3) by (simp add: length_EncodeToString)
  have lowD: "list_all isLowerHex D"
    using assms(3) by (simp add: EncodeToString_lower)
  then have hexD: "list_all isHexChar D"
    by (simp add: list_all_iff isLowerHex_isHexChar)
  from assms(1) lenD have neD: "D \<noteq> []"
    by (auto simp: rawAlgorithms_def rawDigestSize_def Algo_defs)
  have padded: "TrimSpace (wsl @ D @ wsr) = D
            \<and> DetectHashAlgo (wsl @ D @ wsr) = (alg, None)
            \<and> DefaultHasher_Verify P (wsl @ D @ wsr) plain = (False, alg, None)"
    if ws: "isSpaceString wsl" "isSpaceString wsr" "wsl @ wsr \<noteq> []"
  proof -
    have t: "TrimSpace (wsl @ D @ wsr) = D"
      using neD hexD ws(1,2) by (rule TrimSpace_hex)
    then have d: "DetectHashAlgo (wsl @ D @ wsr) = (alg, None)"
      using assms(1) lenD hexD by (simp add: DetectHashAlgo_eq classify_spec_hex)
    have "length (ToLower (wsl @ D @ wsr)) \<noteq> length D"
      using ws(3) by (simp add: ToLower_def)
    then have "ToLower (wsl @ D @ wsr) \<noteq> D" by auto
    with Verify_raw [OF assms(1) d, of P plain] assms(3) t d show ?thesis by simp
  qed
  have cased: "DefaultHasher_Verify P h plain = (True, alg, None)" if h: "ToLower h = D"
  proof -
    from h lowD have hexh: "list_all isHexChar h"
      by (simp add: list_all_isHexChar_ToLower)
    from h lenD have lenh: "length h = 2 * rawDigestSize alg"
      by (auto simp: ToLower_def)
    with neD h have neh: "h \<noteq> []" by (auto simp: ToLower_def)
    have "TrimSpace ([] @ h @ []) = h"
      using neh hexh isSpaceString_Nil isSpaceString_Nil by (rule TrimSpace_hex)
    then have d: "DetectHashAlgo h = (alg, None)"
      using assms(1) lenh hexh by (simp add: DetectHashAlgo_eq classify_spec_hex)
    with Verify_raw [OF assms(1) d, of P plain] assms(3) h show ?thesis by simp
  qed
  from padded cased show ?thesis by blast
qed

theorem Verify_raw_whitespace_and_case_witness:
  "DefaultHasher_Verify example_primitives
      ('' '' @ ''5f4dcc3b5aa765d61d8327deb882cf99'' @ [CHR 0xC2, CHR 0xA0, CHR 0x0A]) ''password''
     = (False, AlgoRawMD5, None)
   \<and> DefaultHasher_Verify example_primitives ''5F4DCC3B5AA765D61D8327DEB882CF99'' ''password''
     = (True, AlgoRawMD5, None)"
proof -
  have a: "AlgoRawMD5 \<in> set rawAlgorithms" by (simp add: rawAlgorithms_def)
  have b: "length (rawDigest example_primitives AlgoRawMD5 ''password'') = rawDigestSize AlgoRawMD5"
    by code_simp
  have c: "''5f4dcc3b5aa765d61d8327deb882cf99''
             = EncodeToString (rawDigest example_primitives AlgoRawMD5 ''password'')"
    by code_simp
  have s1: "isSpaceString '' ''" by code_simp
  have s2: "isSpaceString [CHR 0xC2, CHR 0xA0, CHR 0x0A]" by code_simp
  have u: "ToLower ''5F4DCC3B5AA765D61D8327DEB882CF99'' = ''5f4dcc3b5aa765d61d8327deb882cf99''"
    by code_simp
  note h = Verify_raw_whitespace_and_case [OF a b c, where wsl = "'' ''"
      and wsr = "[CHR 0xC2, CHR 0xA0, CHR 0x0A]" and h = "''5F4DCC3B5AA765D61D8327DEB882CF99''"]
  from h s1 s2 u show ?thesis by simp
qed

section \<open>The Bearer authenticator\<close>

lemma HasPrefix_append [simp]: "HasPrefix (p @ t) p"
  by (simp add: HasPrefix_def)

lemma TrimPrefix_append [simp]: "TrimPrefix (p @ t) p = t"
  by (simp add: TrimPrefix_def)

text \<open>
  Claim C9. For a request with a non-empty \<^verbatim>\<open>X-Api-Key\<close> that the key store knows and an
  \<^verbatim>\<open>Authorization\<close> header \<^verbatim>\<open>Bearer\<close>, a space and a token, \<open>Verify\<close> succeeds exactly when
  the token is the stored secret hex, character for character; any other token, the
  same hex in another letter case included, fails as not verified. An empty or absent
  \<^verbatim>\<open>X-Api-Key\<close> or \<^verbatim>\<open>Authorization\<close> header fails, and so does a key the store does not
  know.
\<close>

theorem Bearer_Verify_exact_secret:
  "(Header_Get (Header r) hdrAPIKey \<noteq> '''' \<and>
    bearer_accessSecrets s (Header_Get (Header r) hdrAPIKey) = Some secretHex \<and>
    Header_Get (Header r) hdrAuthz = ''Bearer '' @ token \<longrightarrow>
      (BearerAuthenticator_Verify s r = None \<longleftrightarrow> token = secretHex)
      \<and> (token \<noteq> secretHex \<longrightarrow> BearerAuthenticator_Verify s r = Some ErrNotVerified))
   \<and> (Header_Get (Header r) hdrAPIKey = '''' \<or> Header_Get (Header r) hdrAuthz = '''' \<longrightarrow>
        BearerAuthenticator_Verify s r = Some ErrMissingAuthHeaders)
   \<and> (Header_Get (Header r) hdrAPIKey \<noteq> '''' \<and> Header_Get (Header r) hdrAuthz \<noteq> '''' \<and>
      bearer_accessSecrets s (Header_Get (Header r) hdrAPIKey) = None \<longrightarrow>
        BearerAuthenticator_Verify s r = Some ErrUnknownApiKey)"
proof -
  have b: "bearerScheme @ '' '' = ''Bearer ''" by (simp add: bearerScheme_def)
  show ?thesis
    unfolding BearerAuthenticator_Verify_def Let_def b
    by (auto simp del: append.simps)
qed

theorem Bearer_Verify_exact_secret_witness:
  "BearerAuthenticator_Verify example_bearer
     (example_request ''GET'' ''/api/users'' ''''
        [(''X-Api-Key'', ''test-key''), (''Authorization'', ''Bearer '' @ example_secretHex)] NoBody)
     = None
   \<and> BearerAuthenticator_Verify example_bearer
     (example_request ''GET'' ''/api/users'' ''''
        [(''X-Api-Key'', ''test-key''),
         (''Authorization'', ''Bearer '' @ ''00112233445566778899AABBCCDDEEFF00112233445566778899AABBCCDDEEFF'')]
        NoBody)
     = Some ErrNotVerified
   \<and> BearerAuthenticator_Verify example_bearer
     (example_request ''GET'' ''/api/users'' '''' [(''Authorization'', ''Bearer '' @ example_secretHex)] NoBody)
     = Some ErrMissingAuthHeaders
   \<and> BearerAuthenticator_Verify example_bearer
     (example_request ''GET'' ''/api/users'' ''''
        [(''X-Api-Key'', ''other-key''), (''Authorization'', ''Bearer '' @ example_secretHex)] NoBody)
     = Some ErrUnknownApiKey"
proof -
  let ?ok = "example_request ''GET'' ''/api/users'' ''''
        [(''X-Api-Key'', ''test-key''), (''Authorization'', ''Bearer '' @ example_secretHex)] NoBody"
  let ?up = "example_request ''GET'' ''/api/users'' ''''
        [(''X-Api-Key'', ''test-key''),
         (''Authorization'', ''Bearer '' @ ''00112233445566778899AABBCCDDEEFF00112233445566778899AABBCCDDEEFF'')]
        NoBody"
  let ?nokey = "example_request ''GET'' ''/api/users'' ''''
        [(''Authorization'', ''Bearer '' @ example_secretHex)] NoBody"
  let ?other = "example_request ''GET'' ''/api/users'' ''''
        [(''X-Api-Key'', ''other-key''), (''Authorization'', ''Bearer '' @ example_secretHex)] NoBody"
  have k: "Header_Get (Header ?ok) hdrAPIKey = ''test-key''"
      "Header_Get (Header ?up) hdrAPIKey = ''test-key''"
      "Header_Get (Header ?nokey) hdrAPIKey = ''''"
      "Header_Get (Header ?other) hdrAPIKey = ''other-key''"
    by (simp_all add: example_request_def Header_Get_def hdrAPIKey_def)
  have a: "Header_Get (Header ?ok) hdrAuthz = ''Bearer '' @ example_secretHex"
      "Header_Get (Header ?up) hdrAuthz
         = ''Bearer '' @ ''00112233445566778899AABBCCDDEEFF00112233445566778899AABBCCDDEEFF''"
      "Header_Get (Header ?other) hdrAuthz = ''Bearer '' @ example_secretHex"
    by (simp_all add: example_request_def Header_Get_def hdrAuthz_def hdrAPIKey_def)
  have s: "bearer_accessSecrets example_bearer ''test-key'' = Some example_secretHex"
      "bearer_accessSecrets example_bearer ''other-key'' = None"
    by (simp_all add: example_bearer_def)
  have ne: "''00112233445566778899AABBCCDDEEFF00112233445566778899AABBCCDDEEFF'' \<noteq> example_secretHex"
    by (simp add: example_secretHex_def)
  have ne2: "''Bearer '' @ example_secretHex \<noteq> ''''" by simp
  from Bearer_Verify_exact_secret [where r = ?ok and s = example_bearer
      and secretHex = example_secretHex and token = example_secretHex] k a s
  have 1: "BearerAuthenticator_Verify example_bearer ?ok = None" by simp
  from Bearer_Verify_exact_secret [where r = ?up and s = example_bearer
      and secretHex = example_secretHex
      and token = "''00112233445566778899AABBCCDDEEFF00112233445566778899AABBCCDDEEFF''"] k a s ne
  have 2: "BearerAuthenticator_Verify example_bearer ?up = Some ErrNotVerified" by simp
  from Bearer_Verify_exact_secret [where r = ?nokey and s = example_bearer] k
  have 3: "BearerAuthenticator_Verify example_bearer ?nokey = Some ErrMissingAuthHeaders" by simp
  from Bearer_Verify_exact_secret [where r = ?other and s = example_bearer] k a s ne2
  have 4: "BearerAuthenticator_Verify example_bearer ?other = Some ErrUnknownApiKey"
    by (simp del: append.simps)
  from 1 2 3 4 show ?thesis by blast
qed

section \<open>The dispatcher\<close>

lemma Supports_loop_iff:
  "MultiAuthenticator_Supports_loop as r \<longleftrightarrow> (\<exists>a \<in> set as. Supports (snd a) r)"
  by (induction as r rule: MultiAuthenticator_Supports_loop.induct) auto

lemma Verify_loop_find:
  "MultiAuthenticator_Verify_loop as r =
     (case find (\<lambda>a. Supports (snd a) r) as of
        None \<Rightarrow> (Some ErrSchemeNotSupported, r)
      | Some a \<Rightarrow> Verify (snd a) r)"
  by (induction as r rule: MultiAuthenticator_Verify_loop.induct) auto

text \<open>
  Claim C8. \<open>Verify\<close> of the dispatcher fails with the missing-header error when the
  \<^verbatim>\<open>Authorization\<close> header is empty. Otherwise it returns, unchanged, the result of
  \<open>Verify\<close> of the first held authenticator (in the order the walk over the map visits
  them) whose \<open>Supports\<close> is true, so of an authenticator that supports the request
  whenever there is one; and it fails with the scheme-not-supported error, a different
  error, when none supports it. \<open>Supports\<close> of the dispatcher is true exactly when some
  held authenticator supports the request.
\<close>

theorem MultiAuthenticator_dispatch:
  "(Header_Get (Header r) hdrAuthz = '''' \<longrightarrow>
      MultiAuthenticator_Verify s r = (Some ErrMissingAuthorizationHeader, r))
   \<and> (Header_Get (Header r) hdrAuthz \<noteq> '''' \<longrightarrow>
      MultiAuthenticator_Verify s r =
        (case find (\<lambda>a. Supports (snd a) r) (authenticators s) of
           None \<Rightarrow> (Some ErrSchemeNotSupported, r)
         | Some a \<Rightarrow> Verify (snd a) r))
   \<and> (Header_Get (Header r) hdrAuthz \<noteq> '''' \<and> (\<exists>a \<in> set (authenticators s). Supports (snd a) r) \<longrightarrow>
      (\<exists>a \<in> set (authenticators s). Supports (snd a) r \<and> MultiAuthenticator_Verify s r = Verify (snd a) r))
   \<and> (Header_Get (Header r) hdrAuthz \<noteq> '''' \<and> \<not> (\<exists>a \<in> set (authenticators s). Supports (snd a) r) \<longrightarrow>
      MultiAuthenticator_Verify s r = (Some ErrSchemeNotSupported, r))
   \<and> (MultiAuthenticator_Supports s r \<longleftrightarrow> (\<exists>a \<in> set (authenticators s). Supports (snd a) r))
   \<and> ErrMissingAuthorizationHeader \<noteq> ErrSchemeNotSupported"
proof -
  let ?sup = "\<lambda>a. Supports (snd a) r"
  let ?as = "authenticators s"
  have some: "\<exists>a \<in> set as. ?sup a \<and> find ?sup as = Some a"
    if "\<exists>a \<in> set as. ?sup a" for as
    using that by (induction as) auto
  have none: "find ?sup as = None" if "\<not> (\<exists>a \<in> set as. ?sup a)" for as
    using that by (induction as) auto
  have c1: "MultiAuthenticator_Verify s r = (Some ErrMissingAuthorizationHeader, r)"
    if "Header_Get (Header r) hdrAuthz = ''''"
    using that by (simp add: MultiAuthenticator_Verify_def)
  have c2: "MultiAuthenticator_Verify s r =
        (case find ?sup ?as of None \<Rightarrow> (Some ErrSchemeNotSupported, r) | Some a \<Rightarrow> Verify (snd a) r)"
    if "Header_Get (Header r) hdrAuthz \<noteq> ''''"
    using that by (simp add: MultiAuthenticator_Verify_def Verify_loop_find)
  have c3: "\<exists>a \<in> set ?as. ?sup a \<and> MultiAuthenticator_Verify s r = Verify (snd a) r"
    if "Header_Get (Header r) hdrAuthz \<noteq> ''''" "\<exists>a \<in> set ?as. ?sup a"
  proof -
    from some [OF that(2)] obtain a where "a \<in> set ?as" "?sup a" "find ?sup ?as = Some a"
      by blast
    with c2 [OF that(1)] show ?thesis by auto
  qed
  have c4: "MultiAuthenticator_Verify s r = (Some ErrSchemeNotSupported, r)"
    if "Header_Get (Header r) hdrAuthz \<noteq> ''''" "\<not> (\<exists>a \<in> set ?as. ?sup a)"
    using c2 [OF that(1)] none [OF that(2)] by simp
  have c5: "MultiAuthenticator_Supports s r \<longleftrightarrow> (\<exists>a \<in> set ?as. ?sup a)"
    by (simp add: MultiAuthenticator_Supports_def Supports_loop_iff)
  from c1 c2 c3 c4 c5 show ?thesis by blast
qed

theorem MultiAuthenticator_dispatch_witness:
  "fst (MultiAuthenticator_Verify example_multi
          (example_request ''GET'' ''/api/users'' '''' [(''X-Api-Key'', ''test-key'')] NoBody))
     = Some ErrMissingAuthorizationHeader
   \<and> fst (MultiAuthenticator_Verify example_multi
          (example_request ''GET'' ''/api/users'' ''''
             [(''X-Api-Key'', ''test-key''), (''Authorization'', ''Bearer '' @ example_secretHex)] NoBody))
     = None
   \<and> MultiAuthenticator_Supports example_multi
          (example_request ''GET'' ''/api/users'' ''''
             [(''X-Api-Key'', ''test-key''), (''Authorization'', ''Bearer '' @ example_secretHex)] NoBody)
   \<and> fst (MultiAuthenticator_Verify example_multi
          (example_request ''GET'' ''/api/users'' ''''
             [(''X-Api-Key'', ''test-key''), (''Authorization'', ''Basic dGVzdA=='')] NoBody))
     = Some ErrSchemeNotSupported
   \<and> \<not> MultiAuthenticator_Supports example_multi
          (example_request ''GET'' ''/api/users'' ''''
             [(''X-Api-Key'', ''test-key''), (''Authorization'', ''Basic dGVzdA=='')] NoBody)"
proof -
  let ?none = "example_request ''GET'' ''/api/users'' '''' [(''X-Api-Key'', ''test-key'')] NoBody"
  let ?bearer = "example_request ''GET'' ''/api/users'' ''''
             [(''X-Api-Key'', ''test-key''), (''Authorization'', ''Bearer '' @ example_secretHex)] NoBody"
  let ?basic = "example_request ''GET'' ''/api/users'' ''''
             [(''X-Api-Key'', ''test-key''), (''Authorization'', ''Basic dGVzdA=='')] NoBody"
  let ?B = "(''bearer'', Bearer_Authenticator example_bearer)"
  have a: "Header_Get (Header ?none) hdrAuthz = ''''"
      "Header_Get (Header ?bearer) hdrAuthz = ''Bearer '' @ example_secretHex"
      "Header_Get (Header ?basic) hdrAuthz = ''Basic dGVzdA==''"
    by (simp_all add: example_request_def Header_Get_def hdrAuthz_def)
  have b: "bearerScheme @ '' '' = ''Bearer ''" by (simp add: bearerScheme_def)
  have sb: "Supports (snd ?B) ?bearer"
    by (simp add: Bearer_Authenticator_def BearerAuthenticator_Supports_def a b del: append.simps)
  have mem: "?B \<in> set (authenticators example_multi)"
    by (simp add: example_multi_def)
  have fb: "find (\<lambda>a. Supports (snd a) ?bearer) (authenticators example_multi) = Some ?B"
    using sb by (simp add: example_multi_def)
  have nb: "\<not> (\<exists>a \<in> set (authenticators example_multi). Supports (snd a) ?basic)"
    by (simp add: example_multi_def Bearer_Authenticator_def HMAC_Authenticator_def
        BearerAuthenticator_Supports_def HMACAuthenticator_Supports_def a bearerScheme_def
        hmacScheme_def HasPrefix_def)
  have k: "Header_Get (Header ?bearer) hdrAPIKey = ''test-key''"
    by (simp add: example_request_def Header_Get_def hdrAPIKey_def)
  have vb: "fst (Verify (snd ?B) ?bearer) = None"
    by (simp add: Bearer_Authenticator_def BearerAuthenticator_Verify_def a b k example_bearer_def
        del: append.simps)
  note d0 = MultiAuthenticator_dispatch [where s = example_multi and r = ?none]
  note d1 = MultiAuthenticator_dispatch [where s = example_multi and r = ?bearer]
  note d2 = MultiAuthenticator_dispatch [where s = example_multi and r = ?basic]
  have ne: "Header_Get (Header ?bearer) hdrAuthz \<noteq> ''''"
      "Header_Get (Header ?basic) hdrAuthz \<noteq> ''''"
    by (simp_all add: a del: append.simps)
  from d0 a(1) have "MultiAuthenticator_Verify example_multi ?none
      = (Some ErrMissingAuthorizationHeader, ?none)" by blast
  then have 1: "fst (MultiAuthenticator_Verify example_multi ?none)
      = Some ErrMissingAuthorizationHeader" by simp
  from d1 ne(1) have "MultiAuthenticator_Verify example_multi ?bearer
      = (case find (\<lambda>a. Supports (snd a) ?bearer) (authenticators example_multi) of
           None \<Rightarrow> (Some ErrSchemeNotSupported, ?bearer) | Some a \<Rightarrow> Verify (snd a) ?bearer)"
    by blast
  then have "MultiAuthenticator_Verify example_multi ?bearer = Verify (snd ?B) ?bearer"
    by (simp only: fb option.case)
  with vb have 2: "fst (MultiAuthenticator_Verify example_multi ?bearer) = None"
    by (simp only:)
  from d1 sb mem have 3: "MultiAuthenticator_Supports example_multi ?bearer" by blast
  from d2 ne(2) nb have "MultiAuthenticator_Verify example_multi ?basic
      = (Some ErrSchemeNotSupported, ?basic)" by blast
  then have 4: "fst (MultiAuthenticator_Verify example_multi ?basic)
      = Some ErrSchemeNotSupported" by simp
  from d2 nb have 5: "\<not> MultiAuthenticator_Supports example_multi ?basic" by blast
  from 1 2 3 4 5 show ?thesis by blast
qed

end
